theory Spec2Isabelle
  imports Main "HOL-Library.AList" "HOL-Library.Sublist"
begin

section \<open>The S3 storage backend of the module registry\<close>

text \<open>
  A shallow embedding of \<^verbatim>\<open>pkg/module/storage_s3.go\<close>. The three operations of
  \<^verbatim>\<open>S3Storage\<close> talk to an object store through the AWS client; here the store is an
  explicit value that every operation takes and returns, and every Go pair
  \<^verbatim>\<open>(value, error)\<close> is a sum with the error on the left.
\<close>

subsection \<open>Errors\<close>

text \<open>
  The package's sentinel errors (\<^verbatim>\<open>ErrNotFound\<close>, \<^verbatim>\<open>ErrAlreadyExists\<close>,
  \<^verbatim>\<open>ErrListFailed\<close>, \<^verbatim>\<open>ErrUploadFailed\<close>) are nullary constructors;
  \<^verbatim>\<open>errors.New\<close>, \<^verbatim>\<open>errors.Wrap\<close> and \<^verbatim>\<open>errors.Wrapf\<close> of
  \<^verbatim>\<open>github.com/pkg/errors\<close> build the rest. \<open>Wrap e m\<close> annotates the error \<open>e\<close>
  with the message \<open>m\<close>; \<open>Wrapf e f\<close> keeps the format string \<open>f\<close> it was given
  (the source passes no further arguments).
\<close>

datatype error =
    ErrNotFound
  | ErrAlreadyExists
  | ErrListFailed
  | ErrUploadFailed
  | New string
  | Wrap error string
  | Wrapf error string

text \<open>\<^verbatim>\<open>errors.Cause\<close>: the innermost error of a chain of wrappings.\<close>

fun Cause :: "error \<Rightarrow> error" where
  "Cause (Wrap e m) = Cause e"
| "Cause (Wrapf e f) = Cause e"
| "Cause e = e"

text \<open>
  An error returned by the AWS client: a code and a message. Its \<^verbatim>\<open>Error()\<close>
  text is rendered as \<^verbatim>\<open>code: message\<close>.
\<close>

datatype aws_error = AwsError (code: string) (message: string)

definition aws_Error :: "aws_error \<Rightarrow> string" where
  "aws_Error e = code e @ '': '' @ message e"

subsection \<open>The object store\<close>

text \<open>
  The requests the backend sends. A listing is sent page by page; the number is the
  index of the page asked for.
\<close>

datatype s3_request =
    HeadObjectReq string string
  | ListObjectsV2Req string string nat
  | PutObjectReq string string string

text \<open>
  The state of the service as the client sees it:
  \<^item> \<open>objects\<close>: the stored objects, \<open>(bucket, key)\<close> to content; a listing returns
    the keys in the order of this list;
  \<^item> \<open>max_keys\<close>: the largest number of keys the service puts on one page of a listing;
  \<^item> \<open>pending\<close>: what happens to the coming requests, one entry per request:
    \<open>Some e\<close> when the request fails with the transport or authorisation error \<open>e\<close>
    before reaching the store, \<open>None\<close> when it is served; once the list is used up
    every request is served;
  \<^item> \<open>trace\<close>: the requests sent so far, oldest first, each with the failure injected
    into it, if any.
\<close>

record s3_world =
  objects :: "((string \<times> string) \<times> string) list"
  max_keys :: nat
  pending :: "aws_error option list"
  trace :: "(s3_request \<times> aws_error option) list"

definition next_fault :: "s3_world \<Rightarrow> aws_error option" where
  "next_fault w = (case pending w of [] \<Rightarrow> None | f # _ \<Rightarrow> f)"

text \<open>Sending one request: it takes the next entry of \<open>pending\<close> and is logged.\<close>

definition request :: "s3_world \<Rightarrow> s3_request \<Rightarrow> aws_error option \<times> s3_world" where
  "request w r =
     (next_fault w, w\<lparr>pending := tl (pending w), trace := trace w @ [(r, next_fault w)]\<rparr>)"

text \<open>
  \<^verbatim>\<open>s3.HeadObject\<close>: succeeds (with the content length) when the request is served
  and an object is stored under the key; a served request for a missing key gets the
  service's \<^verbatim>\<open>NotFound\<close> answer.
\<close>

definition HeadObject :: "s3_world \<Rightarrow> string \<Rightarrow> string \<Rightarrow> (aws_error + nat) \<times> s3_world" where
  "HeadObject w b k =
     (case request w (HeadObjectReq b k) of
        (Some e, w') \<Rightarrow> (Inl e, w')
      | (None, w') \<Rightarrow>
          (case map_of (objects w') (b, k) of
             None \<Rightarrow> (Inl (AwsError ''NotFound'' ''Not Found''), w')
           | Some body \<Rightarrow> (Inr (length body), w')))"

text \<open>
  \<^verbatim>\<open>s3manager.Uploader.Upload\<close>: a served request stores the content under the key,
  replacing what was there; a failed one stores nothing.
\<close>

definition Upload :: "s3_world \<Rightarrow> string \<Rightarrow> string \<Rightarrow> string \<Rightarrow> (aws_error + unit) \<times> s3_world" where
  "Upload w b k body =
     (case request w (PutObjectReq b k body) of
        (Some e, w') \<Rightarrow> (Inl e, w')
      | (None, w') \<Rightarrow> (Inr (), w'\<lparr>objects := AList.update (b, k) body (objects w')\<rparr>))"

text \<open>The keys of bucket \<open>b\<close> that start with \<open>pfx\<close>: what a listing has to return.\<close>

definition list_keys :: "s3_world \<Rightarrow> string \<Rightarrow> string \<Rightarrow> string list" where
  "list_keys w b pfx = [k. ((b', k), body) \<leftarrow> objects w, b' = b \<and> prefix pfx k]"

text \<open>
  The pages of a listing: at most \<open>n\<close> keys each (at least one key per page whatever
  \<open>n\<close> is), and a single empty page when nothing matches.
\<close>

function paginate :: "nat \<Rightarrow> 'a list \<Rightarrow> 'a list list" where
  "paginate n xs =
     (if length xs \<le> max 1 n then [xs]
      else take (max 1 n) xs # paginate n (drop (max 1 n) xs))"
  by pat_completeness auto
termination
  by (relation "measure (\<lambda>(n, xs). length xs)") auto

declare paginate.simps [simp del]

text \<open>
  \<^verbatim>\<open>s3.ListObjectsV2Pages(input, fn)\<close>: one request per page; a failed request ends
  the call with its error; after a served one the callback \<open>fn\<close> gets the page and
  whether it is the last, and the call goes on while \<open>fn\<close> returns true. The variables
  the Go closure captures and assigns are the accumulator \<open>acc\<close>.
\<close>

fun pages_loop ::
  "s3_world \<Rightarrow> string \<Rightarrow> string \<Rightarrow> nat \<Rightarrow> string list list \<Rightarrow>
   (string list \<Rightarrow> bool \<Rightarrow> 'a \<Rightarrow> 'a \<times> bool) \<Rightarrow> 'a \<Rightarrow> aws_error option \<times> 'a \<times> s3_world" where
  "pages_loop w b pfx i [] fn acc = (None, acc, w)"
| "pages_loop w b pfx i (page # rest) fn acc =
     (case request w (ListObjectsV2Req b pfx i) of
        (Some e, w') \<Rightarrow> (Some e, acc, w')
      | (None, w') \<Rightarrow>
          (case fn page (rest = []) acc of
             (acc', True) \<Rightarrow> pages_loop w' b pfx (Suc i) rest fn acc'
           | (acc', False) \<Rightarrow> (None, acc', w')))"

definition ListObjectsV2Pages ::
  "s3_world \<Rightarrow> string \<Rightarrow> string \<Rightarrow> (string list \<Rightarrow> bool \<Rightarrow> 'a \<Rightarrow> 'a \<times> bool) \<Rightarrow> 'a \<Rightarrow>
   aws_error option \<times> 'a \<times> s3_world" where
  "ListObjectsV2Pages w b pfx fn acc =
     pages_loop w b pfx 0 (paginate (max_keys w) (list_keys w b pfx)) fn acc"

subsection \<open>The data of the package\<close>

text \<open>\<^verbatim>\<open>Module\<close>: one stored version of a module. \<^verbatim>\<open>Module{}\<close> has every field empty.\<close>

record Module =
  Namespace :: string
  Name :: string
  Provider :: string
  Version :: string
  DownloadURL :: string

text \<open>
  \<^verbatim>\<open>S3Storage\<close>. The two client handles \<^verbatim>\<open>s3\<close> and \<^verbatim>\<open>uploader\<close> of the Go
  struct are the \<open>s3_world\<close> the operations are given.
\<close>

record S3Storage =
  bucket :: string
  bucketPrefix :: string
  archiveFormat :: string
  bucketRegion :: string
  pathStyle :: bool
  bucketEndpoint :: string

text \<open>
  The declarations \<^verbatim>\<open>storage_s3.go\<close> uses from another file of the package: the
  key of a module version (\<^verbatim>\<open>storagePath\<close>), the key prefix of a module
  (\<^verbatim>\<open>storagePrefix\<close>), the parser of a key into its fields (\<^verbatim>\<open>objectMetadata\<close>),
  and the archive format of uploads (\<^verbatim>\<open>DefaultArchiveFormat\<close>). The operations
  take them as a parameter, so that what is proved of the operations holds for every
  way of laying out the keys.
\<close>

record layout =
  storagePath :: "string \<Rightarrow> string \<Rightarrow> string \<Rightarrow> string \<Rightarrow> string \<Rightarrow> string \<Rightarrow> string"
  storagePrefix :: "string \<Rightarrow> string \<Rightarrow> string \<Rightarrow> string \<Rightarrow> string"
  objectMetadata :: "string \<Rightarrow> (string \<rightharpoonup> string)"
  DefaultArchiveFormat :: string

text \<open>
  \<^verbatim>\<open>WithS3ArchiveFormat\<close>, the option that configures the archive format of a
  backend.
\<close>

definition WithS3ArchiveFormat :: "string \<Rightarrow> S3Storage \<Rightarrow> S3Storage" where
  "WithS3ArchiveFormat format s = s\<lparr>archiveFormat := format\<rparr>"

subsection \<open>The operations\<close>

text \<open>
  \<^verbatim>\<open>fmt.Sprintf("%s.s3-%s.amazonaws.com/%s", s.bucket, s.bucketRegion, key)\<close>, the
  download URL both \<^verbatim>\<open>GetModule\<close> and the listing callback build.
\<close>

definition downloadURL :: "S3Storage \<Rightarrow> string \<Rightarrow> string" where
  "downloadURL s key = bucket s @ ''.s3-'' @ bucketRegion s @ ''.amazonaws.com/'' @ key"

definition GetModule ::
  "layout \<Rightarrow> S3Storage \<Rightarrow> s3_world \<Rightarrow> string \<Rightarrow> string \<Rightarrow> string \<Rightarrow> string \<Rightarrow>
   (error + Module) \<times> s3_world" where
  "GetModule L s w namespace name provider version =
     (let key = storagePath L (bucketPrefix s) namespace name provider version (archiveFormat s)
      in case HeadObject w (bucket s) key of
           (Inl err, w') \<Rightarrow> (Inl (Wrap ErrNotFound (aws_Error err)), w')
         | (Inr _, w') \<Rightarrow>
             (Inr \<lparr>Namespace = namespace, Name = name, Provider = provider,
                   Version = version, DownloadURL = downloadURL s key\<rparr>, w'))"

text \<open>
  The body of the callback of \<^verbatim>\<open>ListModuleVersions\<close>: the loop over the keys of one
  page, appending to \<open>modules\<close>; a key without a \<^verbatim>\<open>version\<close> field is passed over.
\<close>

fun page_modules ::
  "layout \<Rightarrow> S3Storage \<Rightarrow> string \<Rightarrow> string \<Rightarrow> string \<Rightarrow> string list \<Rightarrow> Module list \<Rightarrow> Module list" where
  "page_modules L s namespace name provider [] modules = modules"
| "page_modules L s namespace name provider (key # objs) modules =
     (case objectMetadata L key ''version'' of
        None \<Rightarrow> page_modules L s namespace name provider objs modules
      | Some version \<Rightarrow>
          page_modules L s namespace name provider objs
            (modules @ [\<lparr>Namespace = namespace, Name = name, Provider = provider,
                         Version = version, DownloadURL = downloadURL s key\<rparr>]))"

definition ListModuleVersions ::
  "layout \<Rightarrow> S3Storage \<Rightarrow> s3_world \<Rightarrow> string \<Rightarrow> string \<Rightarrow> string \<Rightarrow>
   (error + Module list) \<times> s3_world" where
  "ListModuleVersions L s w namespace name provider =
     (let fn = (\<lambda>page last modules. (page_modules L s namespace name provider page modules, True))
      in case ListObjectsV2Pages w (bucket s)
                (storagePrefix L (bucketPrefix s) namespace name provider) fn []
         of (Some err, modules, w') \<Rightarrow> (Inl (Wrap ErrListFailed (aws_Error err)), w')
          | (None, modules, w') \<Rightarrow> (Inr modules, w'))"

definition UploadModule ::
  "layout \<Rightarrow> S3Storage \<Rightarrow> s3_world \<Rightarrow> string \<Rightarrow> string \<Rightarrow> string \<Rightarrow> string \<Rightarrow> string \<Rightarrow>
   (error + Module) \<times> s3_world" where
  "UploadModule L s w namespace name provider version body =
     (if namespace = [] then (Inl (New ''namespace not defined''), w)
      else if name = [] then (Inl (New ''name not defined''), w)
      else if provider = [] then (Inl (New ''provider not defined''), w)
      else if version = [] then (Inl (New ''version not defined''), w)
      else
        let key = storagePath L (bucketPrefix s) namespace name provider version
                    (DefaultArchiveFormat L)
        in case GetModule L s w namespace name provider version of
             (Inr _, w1) \<Rightarrow> (Inl (Wrap ErrAlreadyExists key), w1)
           | (Inl _, w1) \<Rightarrow>
               (case Upload w1 (bucket s)
                       (storagePath L (bucketPrefix s) namespace name provider version
                          (DefaultArchiveFormat L)) body
                of (Inl err, w2) \<Rightarrow> (Inl (Wrapf ErrUploadFailed (aws_Error err)), w2)
                 | (Inr _, w2) \<Rightarrow> GetModule L s w2 namespace name provider version))"

subsection \<open>What the store has been asked to do\<close>

text \<open>
  The object writes carried out so far: the served \<^verbatim>\<open>PutObject\<close> requests of the
  trace, as \<open>(bucket, key, content)\<close>.
\<close>

fun served_put :: "s3_request \<times> aws_error option \<Rightarrow> (string \<times> string \<times> string) list" where
  "served_put (PutObjectReq b k body, None) = [(b, k, body)]"
| "served_put _ = []"

definition object_writes :: "s3_world \<Rightarrow> (string \<times> string \<times> string) list" where
  "object_writes w = concat (map served_put (trace w))"

text \<open>The write requests among the entries of a trace, served or not.\<close>

fun put_request :: "s3_request \<times> aws_error option \<Rightarrow> (string \<times> string \<times> string) list" where
  "put_request (PutObjectReq b k body, f) = [(b, k, body)]"
| "put_request _ = []"

definition put_requests :: "(s3_request \<times> aws_error option) list \<Rightarrow> (string \<times> string \<times> string) list" where
  "put_requests tr = concat (map put_request tr)"

text \<open>
  The failure a listing of \<open>k\<close> pages meets: the first failure injected into one of its
  \<open>k\<close> requests, if there is one.
\<close>

fun listing_fault :: "nat \<Rightarrow> aws_error option list \<Rightarrow> aws_error option" where
  "listing_fault 0 fs = None"
| "listing_fault (Suc k) [] = None"
| "listing_fault (Suc k) (Some e # fs) = Some e"
| "listing_fault (Suc k) (None # fs) = listing_fault k fs"

text \<open>
  A sequence of \<^verbatim>\<open>UploadModule\<close> calls, each on the store the one before left. The
  result is the final store and the identities whose archive was written (an identity
  counts once its write has been carried out, whatever the call then returned).
\<close>

fun upload_all ::
  "layout \<Rightarrow> S3Storage \<Rightarrow> s3_world \<Rightarrow> (string \<times> string \<times> string \<times> string \<times> string) list \<Rightarrow>
   s3_world \<times> (string \<times> string \<times> string \<times> string) list" where
  "upload_all L s w [] = (w, [])"
| "upload_all L s w ((namespace, name, provider, version, body) # calls) =
     (let w1 = snd (UploadModule L s w namespace name provider version body);
          (w2, U) = upload_all L s w1 calls
      in (w2, if length (object_writes w) < length (object_writes w1)
              then (namespace, name, provider, version) # U else U))"

subsection \<open>A layout of the keys\<close>

text \<open>
  The key functions and the default archive format are declared in a file of the
  package other than \<^verbatim>\<open>storage_s3.go\<close>. The layout below follows what the spec says
  of them. It is the concrete instance on which the theorems are run; the theorems
  themselves hold for every layout.
\<close>

text \<open>
  Modelled from the spec: the constant \<^verbatim>\<open>DefaultArchiveFormat\<close>. The spec names
  \<^verbatim>\<open>tar.gz\<close> as the default archive format.
\<close>

definition spec_DefaultArchiveFormat :: string where
  "spec_DefaultArchiveFormat = ''tar.gz''"

text \<open>
  Modelled from the spec: the function \<^verbatim>\<open>storagePath\<close>. The spec lays a key out as
  \<^verbatim>\<open><prefix>/<namespace>/<name>/<provider>/<name>-<version>.<format>\<close>.
\<close>

definition spec_storagePath ::
  "string \<Rightarrow> string \<Rightarrow> string \<Rightarrow> string \<Rightarrow> string \<Rightarrow> string \<Rightarrow> string" where
  "spec_storagePath pfx namespace name provider version format =
     pfx @ ''/'' @ namespace @ ''/'' @ name @ ''/'' @ provider @ ''/'' @
     name @ ''-'' @ version @ ''.'' @ format"

text \<open>
  Modelled from the spec: the function \<^verbatim>\<open>storagePrefix\<close>. The spec lists the versions
  of a module under its \<^verbatim>\<open>(namespace, name, provider)\<close> prefix: the part of the key
  up to the provider.
\<close>

definition spec_storagePrefix :: "string \<Rightarrow> string \<Rightarrow> string \<Rightarrow> string \<Rightarrow> string" where
  "spec_storagePrefix pfx namespace name provider =
     pfx @ ''/'' @ namespace @ ''/'' @ name @ ''/'' @ provider"

text \<open>The segments of a string between the occurrences of a separator.\<close>

fun split_on :: "char \<Rightarrow> string \<Rightarrow> string list" where
  "split_on c [] = [[]]"
| "split_on c (x # xs) =
     (if x = c then [] # split_on c xs
      else (case split_on c xs of
              [] \<Rightarrow> [[x]]
            | seg # segs \<Rightarrow> (x # seg) # segs))"

text \<open>
  Modelled from the spec: the function \<^verbatim>\<open>objectMetadata\<close>. The spec has it parse a
  key against the shape of the layout, recover the version and possibly the other
  fields, and recover nothing from a key of another shape. Here a key has a version
  when its last segment is \<^verbatim>\<open><name>-<version>.<format>\<close>, with the name of the
  segment two before it, a version that is not empty and the default format; the three
  segments before the last are the namespace, the name and the provider.
\<close>

definition spec_objectMetadata :: "string \<Rightarrow> (string \<rightharpoonup> string)" where
  "spec_objectMetadata key =
     (case rev (split_on CHR ''/'' key) of
        file # provider # name # namespace # _ \<Rightarrow>
          (let stem = name @ ''-''; ext = ''.'' @ spec_DefaultArchiveFormat
           in if prefix stem file \<and> suffix ext file \<and> length stem + length ext < length file
              then [''namespace'' \<mapsto> namespace, ''name'' \<mapsto> name, ''provider'' \<mapsto> provider,
                    ''version'' \<mapsto> take (length file - length stem - length ext)
                                        (drop (length stem) file)]
              else Map.empty)
      | _ \<Rightarrow> Map.empty)"

definition spec_layout :: layout where
  "spec_layout =
     \<lparr>storagePath = spec_storagePath, storagePrefix = spec_storagePrefix,
      objectMetadata = spec_objectMetadata, DefaultArchiveFormat = spec_DefaultArchiveFormat\<rparr>"

subsection \<open>Example backends and stores\<close>

definition registry :: S3Storage where
  "registry =
     \<lparr>bucket = ''registry'', bucketPrefix = ''modules'', archiveFormat = ''tar.gz'',
      bucketRegion = ''eu-west-1'', pathStyle = False, bucketEndpoint = []\<rparr>"

text \<open>The same backend with the archive format \<^verbatim>\<open>zip\<close> configured.\<close>

definition registry_zip :: S3Storage where
  "registry_zip = WithS3ArchiveFormat ''zip'' registry"

definition empty_store :: s3_world where
  "empty_store = \<lparr>objects = [], max_keys = 1000, pending = [], trace = []\<rparr>"

text \<open>A store that holds version 1.0.0 of the module \<^verbatim>\<open>acme/vpc/aws\<close>.\<close>

definition vpc_store :: s3_world where
  "vpc_store =
     \<lparr>objects = [((''registry'', ''modules/acme/vpc/aws/vpc-1.0.0.tar.gz''), ''archive'')],
      max_keys = 1000, pending = [], trace = []\<rparr>"

text \<open>The same store when the coming request is refused for lack of permission.\<close>

definition denied_store :: s3_world where
  "denied_store = vpc_store\<lparr>pending := [Some (AwsError ''AccessDenied'' ''Access Denied'')]\<rparr>"

text \<open>An empty store whose third request times out.\<close>

definition flaky_store :: s3_world where
  "flaky_store =
     empty_store\<lparr>pending := [None, None, Some (AwsError ''RequestTimeout'' ''timed out'')]\<rparr>"

text \<open>
  A store with pages of two keys. Under the prefix of \<^verbatim>\<open>acme/vpc/aws\<close> it holds two
  versions of the module, a file that is no archive, and an archive whose key spells
  out another module; another bucket holds a fifth object.
\<close>

definition mixed_store :: s3_world where
  "mixed_store =
     \<lparr>objects =
        [((''registry'', ''modules/acme/vpc/aws/vpc-1.0.0.tar.gz''), ''archive''),
         ((''registry'', ''modules/acme/vpc/aws/README.md''), ''notes''),
         ((''backup'', ''modules/acme/vpc/aws/vpc-0.9.0.tar.gz''), ''old''),
         ((''registry'', ''modules/acme/vpc/aws/other/net/gcp/net-9.9.9.tar.gz''), ''foreign''),
         ((''registry'', ''modules/acme/vpc/aws/vpc-1.1.0.tar.gz''), ''archive'')],
      max_keys = 2, pending = [], trace = []\<rparr>"

text \<open>
  Five uploads into an empty store with pages of two keys: three versions of
  \<^verbatim>\<open>acme/vpc/aws\<close>, one of them sent twice, and one version of \<^verbatim>\<open>acme/vpc/gcp\<close>.
\<close>

definition paged_store :: s3_world where
  "paged_store = empty_store\<lparr>max_keys := 2\<rparr>"

definition acme_uploads :: "(string \<times> string \<times> string \<times> string \<times> string) list" where
  "acme_uploads =
     [(''acme'', ''vpc'', ''aws'', ''1.0.0'', ''a''),
      (''acme'', ''vpc'', ''aws'', ''1.1.0'', ''b''),
      (''acme'', ''vpc'', ''gcp'', ''3.0.0'', ''c''),
      (''acme'', ''vpc'', ''aws'', ''1.0.0'', ''d''),
      (''acme'', ''vpc'', ''aws'', ''2.0.0'', ''e'')]"

text \<open>
  Two uploads: a version of \<^verbatim>\<open>acme/vpc/aws\<close> and a version of
  \<^verbatim>\<open>acme/vpc/aws-gov\<close>, a module whose provider starts with the other's.
\<close>

definition gov_uploads :: "(string \<times> string \<times> string \<times> string \<times> string) list" where
  "gov_uploads =
     [(''acme'', ''vpc'', ''aws'', ''1.0.0'', ''a''),
      (''acme'', ''vpc'', ''aws-gov'', ''2.0.0'', ''b'')]"

section \<open>Properties\<close>

subsection \<open>Requests, probes and writes\<close>

lemma request_simps [simp]:
  "fst (request w r) = next_fault w"
  "objects (snd (request w r)) = objects w"
  "max_keys (snd (request w r)) = max_keys w"
  "pending (snd (request w r)) = tl (pending w)"
  "trace (snd (request w r)) = trace w @ [(r, next_fault w)]"
  by (simp_all add: request_def)

lemma HeadObject_fst:
  "fst (HeadObject w b k) =
     (case next_fault w of
        Some e \<Rightarrow> Inl e
      | None \<Rightarrow> (case map_of (objects w) (b, k) of
                   None \<Rightarrow> Inl (AwsError ''NotFound'' ''Not Found'')
                 | Some body \<Rightarrow> Inr (length body)))"
  by (simp add: HeadObject_def request_def split: option.splits)

lemma HeadObject_snd: "snd (HeadObject w b k) = snd (request w (HeadObjectReq b k))"
  by (simp add: HeadObject_def request_def split: option.splits)

lemma Upload_fst:
  "fst (Upload w b k body) = (case next_fault w of Some e \<Rightarrow> Inl e | None \<Rightarrow> Inr ())"
  by (simp add: Upload_def request_def split: option.splits)

lemma Upload_snd:
  "snd (Upload w b k body) =
     (case next_fault w of
        Some e \<Rightarrow> snd (request w (PutObjectReq b k body))
      | None \<Rightarrow> (snd (request w (PutObjectReq b k body)))
                  \<lparr>objects := AList.update (b, k) body (objects w)\<rparr>)"
  by (simp add: Upload_def request_def split: option.splits)

lemma GetModule_snd:
  "snd (GetModule L s w ns n p v) =
     snd (request w (HeadObjectReq (bucket s)
            (storagePath L (bucketPrefix s) ns n p v (archiveFormat s))))"
  by (simp add: GetModule_def Let_def HeadObject_def request_def split: option.splits prod.splits sum.splits)

lemma GetModule_fst:
  "fst (GetModule L s w ns n p v) =
     (case next_fault w of
        Some e \<Rightarrow> Inl (Wrap ErrNotFound (aws_Error e))
      | None \<Rightarrow>
          (case map_of (objects w)
                  (bucket s, storagePath L (bucketPrefix s) ns n p v (archiveFormat s)) of
             None \<Rightarrow> Inl (Wrap ErrNotFound (aws_Error (AwsError ''NotFound'' ''Not Found'')))
           | Some body \<Rightarrow>
               Inr \<lparr>Namespace = ns, Name = n, Provider = p, Version = v,
                    DownloadURL = downloadURL s
                      (storagePath L (bucketPrefix s) ns n p v (archiveFormat s))\<rparr>))"
  by (simp add: GetModule_def Let_def HeadObject_def request_def split: option.splits prod.splits sum.splits)

text \<open>UploadModule once the four fields are known to be there.\<close>

lemma UploadModule_valid:
  assumes "namespace \<noteq> []" "name \<noteq> []" "provider \<noteq> []" "version \<noteq> []"
  shows "UploadModule L s w namespace name provider version body =
    (let key = storagePath L (bucketPrefix s) namespace name provider version (DefaultArchiveFormat L);
         w1 = snd (GetModule L s w namespace name provider version)
     in case fst (GetModule L s w namespace name provider version) of
          Inr m \<Rightarrow> (Inl (Wrap ErrAlreadyExists key), w1)
        | Inl e \<Rightarrow>
            (case fst (Upload w1 (bucket s) key body) of
               Inl err \<Rightarrow> (Inl (Wrapf ErrUploadFailed (aws_Error err)), snd (Upload w1 (bucket s) key body))
             | Inr u \<Rightarrow> GetModule L s (snd (Upload w1 (bucket s) key body)) namespace name provider version))"
proof -
  let ?key = "storagePath L (bucketPrefix s) namespace name provider version (DefaultArchiveFormat L)"
  obtain r1 w1 where g: "GetModule L s w namespace name provider version = (r1, w1)"
    by (cases "GetModule L s w namespace name provider version")
  obtain r2 w2 where u: "Upload w1 (bucket s) ?key body = (r2, w2)"
    by (cases "Upload w1 (bucket s) ?key body")
  show ?thesis
    using assms g u by (cases r1; cases r2) (simp_all add: UploadModule_def Let_def)
qed

lemma object_writes_request:
  "object_writes (snd (request w r)) = object_writes w @ served_put (r, next_fault w)"
  by (simp add: object_writes_def)

lemma object_writes_objects_update [simp]:
  "object_writes (w\<lparr>objects := x\<rparr>) = object_writes w"
  by (simp add: object_writes_def)

lemma next_fault_objects_update [simp]:
  "next_fault (w\<lparr>objects := x\<rparr>) = next_fault w"
  by (simp add: next_fault_def)

lemma spec_path [simp]:
  "storagePath spec_layout = spec_storagePath"
  "storagePrefix spec_layout = spec_storagePrefix"
  "objectMetadata spec_layout = spec_objectMetadata"
  "DefaultArchiveFormat spec_layout = ''tar.gz''"
  by (simp_all add: spec_layout_def spec_DefaultArchiveFormat_def)

subsection \<open>Validation of the identity fields\<close>

text \<open>
  C3. An \<^verbatim>\<open>UploadModule\<close> call in which the namespace, the name, the provider or the
  version is the empty string fails with the validation error that names the first
  missing field, and returns the store as it was given: no request has been sent (the
  trace is the same), so neither the existence probe nor a write has been attempted,
  and the objects are unchanged.
\<close>

theorem UploadModule_missing_field:
  assumes "namespace = [] \<or> name = [] \<or> provider = [] \<or> version = []"
  shows "UploadModule L s w namespace name provider version body =
           (Inl (New ((if namespace = [] then ''namespace''
                       else if name = [] then ''name''
                       else if provider = [] then ''provider''
                       else ''version'') @ '' not defined'')), w)"
  using assms by (auto simp: UploadModule_def)

text \<open>The upload of a module without a name into \<open>vpc_store\<close>.\<close>

theorem UploadModule_missing_field_witness:
  "(''acme'' = [] \<or> ([]::string) = [] \<or> ''aws'' = [] \<or> ''1.0.0'' = []) \<and>
   UploadModule spec_layout registry vpc_store ''acme'' [] ''aws'' ''1.0.0'' ''archive'' =
     (Inl (New ''name not defined''), vpc_store)"
  using UploadModule_missing_field
          [of "''acme''" "[]" "''aws''" "''1.0.0''" spec_layout registry vpc_store "''archive''"]
  by simp

subsection \<open>Rejection of a duplicate upload\<close>

text \<open>
  C1, as the code has it. The existence check of \<^verbatim>\<open>UploadModule\<close> is a call of
  \<^verbatim>\<open>GetModule\<close>: it sees a module when its probe is served and an object is stored
  under the key computed with the archive format the backend is configured with. For
  an identity with its four fields present at which the check sees a module,
  \<^verbatim>\<open>UploadModule\<close> fails with \<^verbatim>\<open>ErrAlreadyExists\<close> wrapped with the key of the
  default format as message. It performs no write: the objects are unchanged, no
  write has been carried out and no write request has been sent. A \<^verbatim>\<open>GetModule\<close>
  that follows and is served returns the module the check saw.
\<close>

theorem UploadModule_already_exists:
  assumes "namespace \<noteq> []" "name \<noteq> []" "provider \<noteq> []" "version \<noteq> []"
    and served: "next_fault w = None"
    and stored: "map_of (objects w)
                   (bucket s,
                    storagePath L (bucketPrefix s) namespace name provider version
                      (archiveFormat s)) = Some old"
  shows "fst (UploadModule L s w namespace name provider version body) =
           Inl (Wrap ErrAlreadyExists
                  (storagePath L (bucketPrefix s) namespace name provider version
                     (DefaultArchiveFormat L)))
       \<and> objects (snd (UploadModule L s w namespace name provider version body)) = objects w
       \<and> object_writes (snd (UploadModule L s w namespace name provider version body)) =
           object_writes w
       \<and> put_requests (trace (snd (UploadModule L s w namespace name provider version body))) =
           put_requests (trace w)
       \<and> fst (GetModule L s w namespace name provider version) =
           Inr \<lparr>Namespace = namespace, Name = name, Provider = provider, Version = version,
                DownloadURL = downloadURL s
                  (storagePath L (bucketPrefix s) namespace name provider version
                     (archiveFormat s))\<rparr>
       \<and> (next_fault (snd (UploadModule L s w namespace name provider version body)) = None \<longrightarrow>
            fst (GetModule L s (snd (UploadModule L s w namespace name provider version body))
                   namespace name provider version) =
            fst (GetModule L s w namespace name provider version))"
proof -
  let ?w1 = "snd (GetModule L s w namespace name provider version)"
  let ?m = "\<lparr>Namespace = namespace, Name = name, Provider = provider, Version = version,
                DownloadURL = downloadURL s
                  (storagePath L (bucketPrefix s) namespace name provider version
                     (archiveFormat s))\<rparr>"
  have seen: "fst (GetModule L s w namespace name provider version) = Inr ?m"
    using served stored by (simp add: GetModule_fst)
  have up: "UploadModule L s w namespace name provider version body =
              (Inl (Wrap ErrAlreadyExists
                      (storagePath L (bucketPrefix s) namespace name provider version
                         (DefaultArchiveFormat L))), ?w1)"
    using assms(1-4) seen by (simp add: UploadModule_valid Let_def)
  have obj: "objects ?w1 = objects w"
    by (simp add: GetModule_snd)
  have wr: "object_writes ?w1 = object_writes w"
    by (simp add: GetModule_snd object_writes_request)
  have pr: "put_requests (trace ?w1) = put_requests (trace w)"
    by (simp add: GetModule_snd put_requests_def)
  have again: "next_fault ?w1 = None \<Longrightarrow>
      fst (GetModule L s ?w1 namespace name provider version) = Inr ?m"
    using stored obj by (simp add: GetModule_fst)
  show ?thesis
    using up obj wr pr seen again by simp
qed

text \<open>A second upload of version 1.0.0 of \<^verbatim>\<open>acme/vpc/aws\<close> into \<open>vpc_store\<close>.\<close>

theorem UploadModule_already_exists_witness:
  "next_fault vpc_store = None
   \<and> map_of (objects vpc_store) (''registry'', ''modules/acme/vpc/aws/vpc-1.0.0.tar.gz'') =
       Some ''archive''
   \<and> fst (UploadModule spec_layout registry vpc_store ''acme'' ''vpc'' ''aws'' ''1.0.0'' ''other'') =
       Inl (Wrap ErrAlreadyExists ''modules/acme/vpc/aws/vpc-1.0.0.tar.gz'')
   \<and> objects (snd (UploadModule spec_layout registry vpc_store
                     ''acme'' ''vpc'' ''aws'' ''1.0.0'' ''other'')) =
       [((''registry'', ''modules/acme/vpc/aws/vpc-1.0.0.tar.gz''), ''archive'')]
   \<and> object_writes (snd (UploadModule spec_layout registry vpc_store
                     ''acme'' ''vpc'' ''aws'' ''1.0.0'' ''other'')) = []
   \<and> fst (GetModule spec_layout registry
            (snd (UploadModule spec_layout registry vpc_store
                    ''acme'' ''vpc'' ''aws'' ''1.0.0'' ''other''))
            ''acme'' ''vpc'' ''aws'' ''1.0.0'') =
       Inr \<lparr>Namespace = ''acme'', Name = ''vpc'', Provider = ''aws'', Version = ''1.0.0'',
            DownloadURL =
              ''registry.s3-eu-west-1.amazonaws.com/modules/acme/vpc/aws/vpc-1.0.0.tar.gz''\<rparr>"
proof -
  have served: "next_fault vpc_store = None"
    by (simp add: next_fault_def vpc_store_def)
  have key: "storagePath spec_layout (bucketPrefix registry) ''acme'' ''vpc'' ''aws'' ''1.0.0''
               (archiveFormat registry) = ''modules/acme/vpc/aws/vpc-1.0.0.tar.gz''"
    by (simp add: spec_storagePath_def registry_def)
  have stored': "map_of (objects vpc_store)
      (''registry'', ''modules/acme/vpc/aws/vpc-1.0.0.tar.gz'') = Some ''archive''"
    by (simp add: vpc_store_def)
  have stored: "map_of (objects vpc_store)
      (bucket registry,
       storagePath spec_layout (bucketPrefix registry) ''acme'' ''vpc'' ''aws'' ''1.0.0''
         (archiveFormat registry)) = Some ''archive''"
    unfolding key by (simp add: vpc_store_def registry_def)
  have nf: "next_fault (snd (UploadModule spec_layout registry vpc_store
                     ''acme'' ''vpc'' ''aws'' ''1.0.0'' ''other'')) = None"
    by code_simp
  have ow: "object_writes vpc_store = []" and ob: "objects vpc_store =
       [((''registry'', ''modules/acme/vpc/aws/vpc-1.0.0.tar.gz''), ''archive'')]"
    by (simp_all add: vpc_store_def object_writes_def)
  have dk: "storagePath spec_layout (bucketPrefix registry) ''acme'' ''vpc'' ''aws'' ''1.0.0''
               (DefaultArchiveFormat spec_layout) = ''modules/acme/vpc/aws/vpc-1.0.0.tar.gz''"
    by (simp add: spec_storagePath_def registry_def)
  have url: "downloadURL registry ''modules/acme/vpc/aws/vpc-1.0.0.tar.gz'' =
      ''registry.s3-eu-west-1.amazonaws.com/modules/acme/vpc/aws/vpc-1.0.0.tar.gz''"
    by (simp add: downloadURL_def registry_def)
  from UploadModule_already_exists [OF _ _ _ _ served stored, of "''other''"]
  show ?thesis
    unfolding key dk url using nf served stored' ow ob by simp
qed

text \<open>
  C1 as stated does not hold: a module can be there and be written over. In
  \<open>denied_store\<close> the archive of version 1.0.0 is stored and the existence probe is
  refused; the upload succeeds and the stored content is replaced. With the format
  \<^verbatim>\<open>zip\<close> configured and every request served, the first upload writes the
  \<^verbatim>\<open>tar.gz\<close> key; the second upload of the same identity probes the \<^verbatim>\<open>zip\<close> key,
  writes the \<^verbatim>\<open>tar.gz\<close> key again, and its error is not \<^verbatim>\<open>ErrAlreadyExists\<close>.
\<close>

theorem UploadModule_overwrites_existing:
  "map_of (objects denied_store) (''registry'', ''modules/acme/vpc/aws/vpc-1.0.0.tar.gz'') =
     Some ''archive''
   \<and> fst (UploadModule spec_layout registry denied_store
            ''acme'' ''vpc'' ''aws'' ''1.0.0'' ''other'') =
       Inr \<lparr>Namespace = ''acme'', Name = ''vpc'', Provider = ''aws'', Version = ''1.0.0'',
            DownloadURL =
              ''registry.s3-eu-west-1.amazonaws.com/modules/acme/vpc/aws/vpc-1.0.0.tar.gz''\<rparr>
   \<and> objects (snd (UploadModule spec_layout registry denied_store
                     ''acme'' ''vpc'' ''aws'' ''1.0.0'' ''other'')) =
       [((''registry'', ''modules/acme/vpc/aws/vpc-1.0.0.tar.gz''), ''other'')]
   \<and> objects (snd (UploadModule spec_layout registry_zip empty_store
                     ''acme'' ''vpc'' ''aws'' ''1.0.0'' ''archive'')) =
       [((''registry'', ''modules/acme/vpc/aws/vpc-1.0.0.tar.gz''), ''archive'')]
   \<and> fst (UploadModule spec_layout registry_zip
            (snd (UploadModule spec_layout registry_zip empty_store
                    ''acme'' ''vpc'' ''aws'' ''1.0.0'' ''archive''))
            ''acme'' ''vpc'' ''aws'' ''1.0.0'' ''other'') =
       Inl (Wrap ErrNotFound ''NotFound: Not Found'')
   \<and> objects (snd (UploadModule spec_layout registry_zip
                     (snd (UploadModule spec_layout registry_zip empty_store
                             ''acme'' ''vpc'' ''aws'' ''1.0.0'' ''archive''))
                     ''acme'' ''vpc'' ''aws'' ''1.0.0'' ''other'')) =
       [((''registry'', ''modules/acme/vpc/aws/vpc-1.0.0.tar.gz''), ''other'')]"
  by (simp add: UploadModule_def GetModule_def HeadObject_def Upload_def request_def
      next_fault_def Let_def spec_storagePath_def registry_def registry_zip_def
      WithS3ArchiveFormat_def empty_store_def denied_store_def vpc_store_def
      downloadURL_def aws_Error_def)

subsection \<open>A successful upload\<close>

text \<open>
  C2. When \<^verbatim>\<open>UploadModule\<close> succeeds with the module \<open>m\<close>, the existence probe had
  failed, the archive was written under the key of the default format, and \<open>m\<close> is
  what \<^verbatim>\<open>GetModule\<close> returned when it was run again on the store after the write.
  The identity fields of \<open>m\<close> are the arguments of the call, and a \<^verbatim>\<open>GetModule\<close>
  for the same identity that follows and is served succeeds with the same module.
\<close>

theorem UploadModule_success:
  assumes "UploadModule L s w namespace name provider version body = (Inr m, w')"
  shows "(\<exists>e w1 w2.
            GetModule L s w namespace name provider version = (Inl e, w1)
          \<and> Upload w1 (bucket s)
              (storagePath L (bucketPrefix s) namespace name provider version
                 (DefaultArchiveFormat L)) body = (Inr (), w2)
          \<and> GetModule L s w2 namespace name provider version = (Inr m, w'))
       \<and> Namespace m = namespace \<and> Name m = name \<and> Provider m = provider \<and> Version m = version
       \<and> (next_fault w' = None \<longrightarrow>
            fst (GetModule L s w' namespace name provider version) = Inr m)"
proof -
  have ne: "namespace \<noteq> []" "name \<noteq> []" "provider \<noteq> []" "version \<noteq> []"
    using assms by (auto simp: UploadModule_def split: if_splits)
  let ?key = "storagePath L (bucketPrefix s) namespace name provider version (DefaultArchiveFormat L)"
  obtain r1 w1 where g1: "GetModule L s w namespace name provider version = (r1, w1)"
    by (cases "GetModule L s w namespace name provider version")
  obtain r2 w2 where u: "Upload w1 (bucket s) ?key body = (r2, w2)"
    by (cases "Upload w1 (bucket s) ?key body")
  from assms ne g1 u obtain e where r1: "r1 = Inl e" and r2: "r2 = Inr ()"
    and g2: "GetModule L s w2 namespace name provider version = (Inr m, w')"
    by (auto simp: UploadModule_valid Let_def split: sum.splits)
  have fields: "Namespace m = namespace \<and> Name m = name \<and> Provider m = provider \<and> Version m = version"
    using arg_cong[OF g2, of fst] by (auto simp: GetModule_fst split: option.splits)
  have w': "w' = snd (GetModule L s w2 namespace name provider version)"
    using g2 by simp
  have again: "next_fault w' = None \<Longrightarrow> fst (GetModule L s w' namespace name provider version) = Inr m"
    using arg_cong[OF g2, of fst] unfolding w'
    by (auto simp: GetModule_fst GetModule_snd split: option.splits)
  show ?thesis
    using g1 u g2 r1 r2 fields again by auto
qed

text \<open>The first upload of version 1.0.0 of \<^verbatim>\<open>acme/vpc/aws\<close> into the empty store.\<close>

theorem UploadModule_success_witness:
  "UploadModule spec_layout registry empty_store ''acme'' ''vpc'' ''aws'' ''1.0.0'' ''archive'' =
     (Inr \<lparr>Namespace = ''acme'', Name = ''vpc'', Provider = ''aws'', Version = ''1.0.0'',
           DownloadURL =
             ''registry.s3-eu-west-1.amazonaws.com/modules/acme/vpc/aws/vpc-1.0.0.tar.gz''\<rparr>,
      \<lparr>objects = [((''registry'', ''modules/acme/vpc/aws/vpc-1.0.0.tar.gz''), ''archive'')],
       max_keys = 1000, pending = [],
       trace = [(HeadObjectReq ''registry'' ''modules/acme/vpc/aws/vpc-1.0.0.tar.gz'', None),
                (PutObjectReq ''registry'' ''modules/acme/vpc/aws/vpc-1.0.0.tar.gz'' ''archive'', None),
                (HeadObjectReq ''registry'' ''modules/acme/vpc/aws/vpc-1.0.0.tar.gz'', None)]\<rparr>)
   \<and> fst (GetModule spec_layout registry
            \<lparr>objects = [((''registry'', ''modules/acme/vpc/aws/vpc-1.0.0.tar.gz''), ''archive'')],
             max_keys = 1000, pending = [],
             trace = [(HeadObjectReq ''registry'' ''modules/acme/vpc/aws/vpc-1.0.0.tar.gz'', None),
                      (PutObjectReq ''registry'' ''modules/acme/vpc/aws/vpc-1.0.0.tar.gz'' ''archive'', None),
                      (HeadObjectReq ''registry'' ''modules/acme/vpc/aws/vpc-1.0.0.tar.gz'', None)]\<rparr>
            ''acme'' ''vpc'' ''aws'' ''1.0.0'') =
       Inr \<lparr>Namespace = ''acme'', Name = ''vpc'', Provider = ''aws'', Version = ''1.0.0'',
            DownloadURL =
              ''registry.s3-eu-west-1.amazonaws.com/modules/acme/vpc/aws/vpc-1.0.0.tar.gz''\<rparr>"
  (is "?up = (Inr ?m, ?w') \<and> ?get = Inr ?m")
proof -
  have run: "?up = (Inr ?m, ?w')"
    by (simp add: UploadModule_def GetModule_def HeadObject_def Upload_def request_def
        next_fault_def Let_def spec_storagePath_def registry_def empty_store_def downloadURL_def)
  have nf: "next_fault ?w' = None"
    by (simp add: next_fault_def)
  show ?thesis
    using UploadModule_success [OF run] nf run by simp
qed

subsection \<open>The errors of GetModule\<close>

text \<open>
  C4, as the code has it. \<^verbatim>\<open>GetModule\<close> fails exactly when its existence probe fails,
  whether the request was refused on the way (a transport or authorisation error) or
  served for a key under which nothing is stored. In both cases the error is
  \<^verbatim>\<open>ErrNotFound\<close> wrapped with the text of the probe's error: a missing object is
  reported as not found, every other failure of the probe is reported as not found as
  well, with its cause kept in the message. When the probe succeeds the module is
  returned.
\<close>

theorem GetModule_probe:
  "fst (GetModule L s w namespace name provider version) =
     (case next_fault w of
        Some e \<Rightarrow> Inl (Wrap ErrNotFound (aws_Error e))
      | None \<Rightarrow>
          (case map_of (objects w)
                  (bucket s,
                   storagePath L (bucketPrefix s) namespace name provider version
                     (archiveFormat s)) of
             None \<Rightarrow> Inl (Wrap ErrNotFound ''NotFound: Not Found'')
           | Some body \<Rightarrow>
               Inr \<lparr>Namespace = namespace, Name = name, Provider = provider,
                    Version = version,
                    DownloadURL = downloadURL s
                      (storagePath L (bucketPrefix s) namespace name provider version
                         (archiveFormat s))\<rparr>))"
  by (simp add: GetModule_fst aws_Error_def split: option.splits)

text \<open>
  C4 as stated does not hold: in \<open>denied_store\<close> the object is stored under the key
  \<^verbatim>\<open>GetModule\<close> computes, the probe is refused with \<^verbatim>\<open>AccessDenied\<close>, and the
  error \<^verbatim>\<open>GetModule\<close> returns has the cause \<^verbatim>\<open>ErrNotFound\<close>.
\<close>

theorem GetModule_denied_reports_not_found:
  "map_of (objects denied_store) (''registry'', ''modules/acme/vpc/aws/vpc-1.0.0.tar.gz'') =
     Some ''archive''
   \<and> spec_storagePath (bucketPrefix registry) ''acme'' ''vpc'' ''aws'' ''1.0.0''
       (archiveFormat registry) = ''modules/acme/vpc/aws/vpc-1.0.0.tar.gz''
   \<and> fst (GetModule spec_layout registry denied_store ''acme'' ''vpc'' ''aws'' ''1.0.0'') =
       Inl (Wrap ErrNotFound ''AccessDenied: Access Denied'')
   \<and> Cause (Wrap ErrNotFound ''AccessDenied: Access Denied'') = ErrNotFound"
  by (simp add: GetModule_fst aws_Error_def denied_store_def vpc_store_def next_fault_def
      spec_storagePath_def registry_def)

subsection \<open>The writes of UploadModule\<close>

text \<open>What a call of \<^verbatim>\<open>UploadModule\<close> has done to the store when it returns.\<close>

lemma UploadModule_effect:
  "(case UploadModule L s w namespace name provider version body of
      (Inr m, w') \<Rightarrow>
        object_writes w' =
          object_writes w @
            [(bucket s,
              storagePath L (bucketPrefix s) namespace name provider version
                (DefaultArchiveFormat L), body)]
        \<and> objects w' =
            AList.update
              (bucket s,
               storagePath L (bucketPrefix s) namespace name provider version
                 (DefaultArchiveFormat L)) body (objects w)
    | (Inl e, w') \<Rightarrow>
        if Cause e = ErrNotFound
        then object_writes w' =
               object_writes w @
                 [(bucket s,
                   storagePath L (bucketPrefix s) namespace name provider version
                     (DefaultArchiveFormat L), body)]
             \<and> objects w' =
                 AList.update
                   (bucket s,
                    storagePath L (bucketPrefix s) namespace name provider version
                      (DefaultArchiveFormat L)) body (objects w)
        else object_writes w' = object_writes w \<and> objects w' = objects w)"
proof (cases "namespace = [] \<or> name = [] \<or> provider = [] \<or> version = []")
  case True
  then show ?thesis
    by (auto simp: UploadModule_def)
next
  case False
  then have ne: "namespace \<noteq> []" "name \<noteq> []" "provider \<noteq> []" "version \<noteq> []"
    by simp_all
  let ?key = "storagePath L (bucketPrefix s) namespace name provider version (DefaultArchiveFormat L)"
  let ?w1 = "snd (GetModule L s w namespace name provider version)"
  let ?w2 = "snd (Upload ?w1 (bucket s) ?key body)"
  have w1: "objects ?w1 = objects w" "object_writes ?w1 = object_writes w"
    by (simp_all add: GetModule_snd object_writes_request)
  show ?thesis
  proof (cases "fst (GetModule L s w namespace name provider version)")
    case (Inr m)
    then show ?thesis
      using ne w1 by (simp add: UploadModule_valid Let_def)
  next
    case (Inl e)
    show ?thesis
    proof (cases "next_fault ?w1")
      case (Some err)
      then have "fst (Upload ?w1 (bucket s) ?key body) = Inl err"
        and "objects ?w2 = objects w" and "object_writes ?w2 = object_writes w"
        using w1 by (simp_all add: Upload_fst Upload_snd object_writes_request)
      then show ?thesis
        using ne Inl by (simp add: UploadModule_valid Let_def)
    next
      case None
      then have up: "fst (Upload ?w1 (bucket s) ?key body) = Inr ()"
        and w2: "objects ?w2 = AList.update (bucket s, ?key) body (objects w)"
          "object_writes ?w2 = object_writes w @ [(bucket s, ?key, body)]"
        using w1 by (simp_all add: Upload_fst Upload_snd object_writes_request)
      let ?g = "GetModule L s ?w2 namespace name provider version"
      have res: "UploadModule L s w namespace name provider version body = ?g"
        using ne Inl up by (simp add: UploadModule_valid Let_def)
      have w3: "objects (snd ?g) = AList.update (bucket s, ?key) body (objects w)"
        "object_writes (snd ?g) = object_writes w @ [(bucket s, ?key, body)]"
        using w2 by (simp_all add: GetModule_snd object_writes_request)
      have cause: "\<And>e. fst ?g = Inl e \<Longrightarrow> Cause e = ErrNotFound"
        by (auto simp: GetModule_fst split: option.splits)
      show ?thesis
        unfolding res using w3 cause by (cases ?g) (auto split: sum.splits)
    qed
  qed
qed

text \<open>
  C5, as the code has it. A successful \<^verbatim>\<open>UploadModule\<close> has carried out exactly one
  object write, of the content under the key of the default format. A call that fails
  on validation, with \<^verbatim>\<open>ErrAlreadyExists\<close> or with \<^verbatim>\<open>ErrUploadFailed\<close> has carried
  out no write and leaves the objects unchanged. A call that fails with the cause
  \<^verbatim>\<open>ErrNotFound\<close> failed in the final re-read: its one write has been carried out and
  the object stays stored.
\<close>

theorem UploadModule_writes:
  "(case UploadModule L s w namespace name provider version body of
      (Inr m, w') \<Rightarrow>
        object_writes w' =
          object_writes w @
            [(bucket s,
              storagePath L (bucketPrefix s) namespace name provider version
                (DefaultArchiveFormat L), body)]
        \<and> objects w' =
            AList.update
              (bucket s,
               storagePath L (bucketPrefix s) namespace name provider version
                 (DefaultArchiveFormat L)) body (objects w)
    | (Inl e, w') \<Rightarrow>
        if Cause e = ErrNotFound
        then object_writes w' =
               object_writes w @
                 [(bucket s,
                   storagePath L (bucketPrefix s) namespace name provider version
                     (DefaultArchiveFormat L), body)]
             \<and> objects w' =
                 AList.update
                   (bucket s,
                    storagePath L (bucketPrefix s) namespace name provider version
                      (DefaultArchiveFormat L)) body (objects w)
        else object_writes w' = object_writes w \<and> objects w' = objects w)"
  by (rule UploadModule_effect)

text \<open>
  C5 as stated does not hold. With the archive format \<^verbatim>\<open>zip\<close> configured, the upload
  into the empty store writes the \<^verbatim>\<open>tar.gz\<close> key, re-reads the \<^verbatim>\<open>zip\<close> key and
  fails, and the store has changed. With the default format, the same happens in
  \<open>flaky_store\<close>, where the request of the re-read times out.
\<close>

theorem UploadModule_fails_after_write:
  "fst (UploadModule spec_layout registry_zip empty_store
          ''acme'' ''vpc'' ''aws'' ''1.0.0'' ''archive'') =
     Inl (Wrap ErrNotFound ''NotFound: Not Found'')
   \<and> object_writes (snd (UploadModule spec_layout registry_zip empty_store
                           ''acme'' ''vpc'' ''aws'' ''1.0.0'' ''archive'')) =
       [(''registry'', ''modules/acme/vpc/aws/vpc-1.0.0.tar.gz'', ''archive'')]
   \<and> objects (snd (UploadModule spec_layout registry_zip empty_store
                     ''acme'' ''vpc'' ''aws'' ''1.0.0'' ''archive'')) =
       [((''registry'', ''modules/acme/vpc/aws/vpc-1.0.0.tar.gz''), ''archive'')]
   \<and> objects empty_store = []
   \<and> fst (UploadModule spec_layout registry flaky_store
            ''acme'' ''vpc'' ''aws'' ''1.0.0'' ''archive'') =
       Inl (Wrap ErrNotFound ''RequestTimeout: timed out'')
   \<and> object_writes (snd (UploadModule spec_layout registry flaky_store
                           ''acme'' ''vpc'' ''aws'' ''1.0.0'' ''archive'')) =
       [(''registry'', ''modules/acme/vpc/aws/vpc-1.0.0.tar.gz'', ''archive'')]
   \<and> objects flaky_store = []"
  by (simp add: UploadModule_def GetModule_def HeadObject_def Upload_def request_def
      next_fault_def Let_def spec_storagePath_def registry_def registry_zip_def WithS3ArchiveFormat_def
      empty_store_def flaky_store_def downloadURL_def object_writes_def aws_Error_def)

subsection \<open>The archive format of reads and of writes\<close>

lemma put_requests_append [simp]:
  "put_requests (xs @ ys) = put_requests xs @ put_requests ys"
  by (simp add: put_requests_def)

lemma put_requests_Nil [simp]: "put_requests [] = []"
  by (simp add: put_requests_def)

lemma put_requests_Cons [simp]: "put_requests (x # xs) = put_request x @ put_requests xs"
  by (simp add: put_requests_def)

lemma trace_objects_update [simp]: "trace (w\<lparr>objects := x\<rparr>) = trace w"
  by simp

text \<open>
  C6. For every backend, \<^verbatim>\<open>GetModule\<close> sends one request, the probe of the key
  computed with the archive format the backend is configured with; and the only write
  request \<^verbatim>\<open>UploadModule\<close> sends (when the four fields are present and the existence
  probe fails) is for the key computed with \<^verbatim>\<open>DefaultArchiveFormat\<close>, in which the
  configured format has no part.
\<close>

theorem archive_format_asymmetry:
  "trace (snd (GetModule L s w namespace name provider version)) =
     trace w @
       [(HeadObjectReq (bucket s)
           (storagePath L (bucketPrefix s) namespace name provider version (archiveFormat s)),
         next_fault w)]
   \<and> put_requests (trace (snd (UploadModule L s w namespace name provider version body))) =
       put_requests (trace w) @
         (if namespace \<noteq> [] \<and> name \<noteq> [] \<and> provider \<noteq> [] \<and> version \<noteq> []
             \<and> isl (fst (GetModule L s w namespace name provider version))
          then [(bucket s,
                 storagePath L (bucketPrefix s) namespace name provider version
                   (DefaultArchiveFormat L), body)]
          else [])"
proof -
  let ?key = "storagePath L (bucketPrefix s) namespace name provider version (DefaultArchiveFormat L)"
  let ?w1 = "snd (GetModule L s w namespace name provider version)"
  let ?w2 = "snd (Upload ?w1 (bucket s) ?key body)"
  have get: "\<And>w. put_requests (trace (snd (GetModule L s w namespace name provider version))) =
      put_requests (trace w)"
    by (simp add: GetModule_snd)
  have put: "put_requests (trace ?w2) = put_requests (trace w) @ [(bucket s, ?key, body)]"
    by (simp add: Upload_snd GetModule_snd split: option.splits)
  have "put_requests (trace (snd (UploadModule L s w namespace name provider version body))) =
       put_requests (trace w) @
         (if namespace \<noteq> [] \<and> name \<noteq> [] \<and> provider \<noteq> [] \<and> version \<noteq> []
             \<and> isl (fst (GetModule L s w namespace name provider version))
          then [(bucket s, ?key, body)] else [])"
  proof (cases "namespace = [] \<or> name = [] \<or> provider = [] \<or> version = []")
    case True
    then show ?thesis by (auto simp: UploadModule_def)
  next
    case False
    then have ne: "namespace \<noteq> []" "name \<noteq> []" "provider \<noteq> []" "version \<noteq> []"
      by simp_all
    show ?thesis
    proof (cases "fst (GetModule L s w namespace name provider version)")
      case (Inr m)
      then show ?thesis using ne get by (simp add: UploadModule_valid Let_def)
    next
      case (Inl e)
      then show ?thesis using ne get put
        by (cases "fst (Upload ?w1 (bucket s) ?key body)") (simp_all add: UploadModule_valid Let_def)
    qed
  qed
  then show ?thesis
    by (simp add: GetModule_snd)
qed

text \<open>
  With \<^verbatim>\<open>zip\<close> configured, \<^verbatim>\<open>GetModule\<close> probes the \<^verbatim>\<open>zip\<close> key and
  \<^verbatim>\<open>UploadModule\<close> writes the \<^verbatim>\<open>tar.gz\<close> key.
\<close>

theorem archive_format_asymmetry_witness:
  "trace (snd (GetModule spec_layout registry_zip empty_store ''acme'' ''vpc'' ''aws'' ''1.0.0'')) =
     [(HeadObjectReq ''registry'' ''modules/acme/vpc/aws/vpc-1.0.0.zip'', None)]
   \<and> put_requests
        (trace (snd (UploadModule spec_layout registry_zip empty_store
                       ''acme'' ''vpc'' ''aws'' ''1.0.0'' ''archive''))) =
       [(''registry'', ''modules/acme/vpc/aws/vpc-1.0.0.tar.gz'', ''archive'')]"
proof -
  have vals: "bucket registry_zip = ''registry''" "bucketPrefix registry_zip = ''modules''"
    "archiveFormat registry_zip = ''zip''" "trace empty_store = []"
    "next_fault empty_store = None"
    by (simp_all add: registry_zip_def WithS3ArchiveFormat_def registry_def empty_store_def
        next_fault_def)
  have probe: "isl (fst (GetModule spec_layout registry_zip empty_store
                          ''acme'' ''vpc'' ''aws'' ''1.0.0''))"
    by code_simp
  show ?thesis
    using archive_format_asymmetry
      [of spec_layout registry_zip empty_store "''acme''" "''vpc''" "''aws''" "''1.0.0''" "''archive''"]
      probe
    by (simp add: vals spec_storagePath_def)
qed

subsection \<open>Pages and the listing callback\<close>

lemma concat_paginate: "concat (paginate n xs) = xs"
proof (induction n xs rule: paginate.induct)
  case (1 n xs)
  show ?case
  proof (cases "length xs \<le> max 1 n")
    case True
    then show ?thesis by (subst paginate.simps) simp
  next
    case False
    with 1 show ?thesis by (subst paginate.simps) simp
  qed
qed

lemma paginate_Nil: "paginate n [] = [[]]"
  by (subst paginate.simps) simp

lemma listing_fault_Nil [simp]: "listing_fault k [] = None"
  by (cases k) simp_all

text \<open>The module the callback builds for a key that has a version.\<close>

lemma page_modules_eq:
  "page_modules L s namespace name provider keys modules =
     modules @
     map (\<lambda>key. \<lparr>Namespace = namespace, Name = name, Provider = provider,
                  Version = the (objectMetadata L key ''version''),
                  DownloadURL = downloadURL s key\<rparr>)
       (filter (\<lambda>key. objectMetadata L key ''version'' \<noteq> None) keys)"
  by (induction keys arbitrary: modules) (auto split: option.splits)

lemma pages_loop_fault:
  "fst (pages_loop w b pfx i pages (\<lambda>page last acc. (g page acc, True)) acc) =
     listing_fault (length pages) (pending w)"
proof (induction pages arbitrary: w i acc)
  case Nil
  show ?case by simp
next
  case (Cons page rest)
  show ?case
  proof (cases "pending w")
    case Nil
    then show ?thesis
      using Cons.IH by (simp add: request_def next_fault_def)
  next
    case (Cons f fs)
    then show ?thesis
      using Cons.IH by (cases f) (simp_all add: request_def next_fault_def)
  qed
qed

lemma pages_loop_result:
  "listing_fault (length pages) (pending w) = None \<Longrightarrow>
   fst (snd (pages_loop w b pfx i pages (\<lambda>page last acc. (g page acc, True)) acc)) =
     fold g pages acc"
proof (induction pages arbitrary: w i acc)
  case Nil
  show ?case by simp
next
  case (Cons page rest)
  show ?case
  proof (cases "pending w")
    case Nil
    then show ?thesis
      using Cons.IH by (simp add: request_def next_fault_def)
  next
    case c: (Cons f fs)
    then show ?thesis
      using Cons.IH Cons.prems by (cases f) (simp_all add: request_def next_fault_def)
  qed
qed

lemma fold_page_modules:
  "fold (page_modules L s namespace name provider) pages modules =
     page_modules L s namespace name provider (concat pages) modules"
proof (induction pages arbitrary: modules)
  case Nil
  show ?case by simp
next
  case (Cons page rest)
  have "page_modules L s namespace name provider (page @ concat rest) modules =
        page_modules L s namespace name provider (concat rest)
          (page_modules L s namespace name provider page modules)"
    by (simp add: page_modules_eq)
  with Cons show ?case by simp
qed

text \<open>What \<^verbatim>\<open>ListModuleVersions\<close> returns, in one equation.\<close>

lemma ListModuleVersions_fst:
  "fst (ListModuleVersions L s w namespace name provider) =
     (case listing_fault
             (length (paginate (max_keys w)
                (list_keys w (bucket s) (storagePrefix L (bucketPrefix s) namespace name provider))))
             (pending w) of
        Some e \<Rightarrow> Inl (Wrap ErrListFailed (aws_Error e))
      | None \<Rightarrow>
          Inr (map (\<lambda>key. \<lparr>Namespace = namespace, Name = name, Provider = provider,
                           Version = the (objectMetadata L key ''version''),
                           DownloadURL = downloadURL s key\<rparr>)
                 (filter (\<lambda>key. objectMetadata L key ''version'' \<noteq> None)
                    (list_keys w (bucket s)
                       (storagePrefix L (bucketPrefix s) namespace name provider)))))"
proof -
  let ?pfx = "storagePrefix L (bucketPrefix s) namespace name provider"
  let ?pages = "paginate (max_keys w) (list_keys w (bucket s) ?pfx)"
  let ?loop = "pages_loop w (bucket s) ?pfx 0 ?pages
     (\<lambda>page last modules. (page_modules L s namespace name provider page modules, True)) []"
  have unfold: "ListModuleVersions L s w namespace name provider =
     (case ?loop of
        (Some err, modules, w') \<Rightarrow> (Inl (Wrap ErrListFailed (aws_Error err)), w')
      | (None, modules, w') \<Rightarrow> (Inr modules, w'))"
    by (simp add: ListModuleVersions_def ListObjectsV2Pages_def)
  have fault: "fst ?loop = listing_fault (length ?pages) (pending w)"
    by (rule pages_loop_fault)
  show ?thesis
  proof (cases "listing_fault (length ?pages) (pending w)")
    case (Some e)
    with fault unfold show ?thesis
      by (cases ?loop) simp
  next
    case None
    then have "fst (snd ?loop) =
        fold (page_modules L s namespace name provider) ?pages []"
      by (rule pages_loop_result)
    then have "fst (snd ?loop) =
        page_modules L s namespace name provider (list_keys w (bucket s) ?pfx) []"
      by (simp add: fold_page_modules concat_paginate)
    with None fault unfold show ?thesis
      by (cases ?loop) (simp add: page_modules_eq)
  qed
qed

text \<open>The listing of \<^verbatim>\<open>acme/vpc/aws\<close> in \<open>mixed_store\<close>.\<close>

lemma mixed_store_listing:
  "fst (ListModuleVersions spec_layout registry mixed_store ''acme'' ''vpc'' ''aws'') =
     Inr [\<lparr>Namespace = ''acme'', Name = ''vpc'', Provider = ''aws'', Version = ''1.0.0'',
            DownloadURL =
              ''registry.s3-eu-west-1.amazonaws.com/modules/acme/vpc/aws/vpc-1.0.0.tar.gz''\<rparr>,
          \<lparr>Namespace = ''acme'', Name = ''vpc'', Provider = ''aws'', Version = ''9.9.9'',
            DownloadURL =
              ''registry.s3-eu-west-1.amazonaws.com/modules/acme/vpc/aws/other/net/gcp/net-9.9.9.tar.gz''\<rparr>,
          \<lparr>Namespace = ''acme'', Name = ''vpc'', Provider = ''aws'', Version = ''1.1.0'',
            DownloadURL =
              ''registry.s3-eu-west-1.amazonaws.com/modules/acme/vpc/aws/vpc-1.1.0.tar.gz''\<rparr>]"
proof -
  have keys: "list_keys mixed_store ''registry'' ''modules/acme/vpc/aws'' =
     [''modules/acme/vpc/aws/vpc-1.0.0.tar.gz'', ''modules/acme/vpc/aws/README.md'',
      ''modules/acme/vpc/aws/other/net/gcp/net-9.9.9.tar.gz'',
      ''modules/acme/vpc/aws/vpc-1.1.0.tar.gz'']"
    by code_simp
  have pfx: "spec_storagePrefix (bucketPrefix registry) ''acme'' ''vpc'' ''aws'' =
     ''modules/acme/vpc/aws''" and b: "bucket registry = ''registry''"
    and r: "bucketRegion registry = ''eu-west-1''"
    and pend: "pending mixed_store = []"
    by (simp_all add: spec_storagePrefix_def registry_def mixed_store_def)
  have md: "spec_objectMetadata ''modules/acme/vpc/aws/vpc-1.0.0.tar.gz'' ''version'' = Some ''1.0.0''"
    "spec_objectMetadata ''modules/acme/vpc/aws/README.md'' ''version'' = None"
    "spec_objectMetadata ''modules/acme/vpc/aws/other/net/gcp/net-9.9.9.tar.gz'' ''version'' = Some ''9.9.9''"
    "spec_objectMetadata ''modules/acme/vpc/aws/vpc-1.1.0.tar.gz'' ''version'' = Some ''1.1.0''"
    by code_simp+
  show ?thesis
    by (simp add: ListModuleVersions_fst keys pfx b r pend md downloadURL_def)
qed

subsection \<open>Keys without a version\<close>

text \<open>
  C7. \<^verbatim>\<open>ListModuleVersions\<close> fails only when a request of the listing fails. When
  every page is served, the result has one module for each listed key that has a
  \<^verbatim>\<open>version\<close> field, in the order of the listing; the keys without one are passed
  over, and the keys after them are processed like the keys before them.
\<close>

theorem ListModuleVersions_skips_unparsed:
  "fst (ListModuleVersions L s w namespace name provider) =
     (case listing_fault
             (length (paginate (max_keys w)
                (list_keys w (bucket s) (storagePrefix L (bucketPrefix s) namespace name provider))))
             (pending w) of
        Some e \<Rightarrow> Inl (Wrap ErrListFailed (aws_Error e))
      | None \<Rightarrow>
          Inr (map (\<lambda>key. \<lparr>Namespace = namespace, Name = name, Provider = provider,
                           Version = the (objectMetadata L key ''version''),
                           DownloadURL = downloadURL s key\<rparr>)
                 (filter (\<lambda>key. objectMetadata L key ''version'' \<noteq> None)
                    (list_keys w (bucket s)
                       (storagePrefix L (bucketPrefix s) namespace name provider)))))"
  by (rule ListModuleVersions_fst)

text \<open>The listing of \<^verbatim>\<open>acme/vpc/aws\<close> in \<open>mixed_store\<close> passes over \<^verbatim>\<open>README.md\<close>.\<close>

theorem ListModuleVersions_skips_unparsed_witness:
  "list_keys mixed_store ''registry'' ''modules/acme/vpc/aws'' =
     [''modules/acme/vpc/aws/vpc-1.0.0.tar.gz'', ''modules/acme/vpc/aws/README.md'',
      ''modules/acme/vpc/aws/other/net/gcp/net-9.9.9.tar.gz'',
      ''modules/acme/vpc/aws/vpc-1.1.0.tar.gz'']
   \<and> spec_objectMetadata ''modules/acme/vpc/aws/README.md'' ''version'' = None
   \<and> fst (ListModuleVersions spec_layout registry mixed_store ''acme'' ''vpc'' ''aws'') =
       Inr [\<lparr>Namespace = ''acme'', Name = ''vpc'', Provider = ''aws'', Version = ''1.0.0'',
              DownloadURL =
                ''registry.s3-eu-west-1.amazonaws.com/modules/acme/vpc/aws/vpc-1.0.0.tar.gz''\<rparr>,
            \<lparr>Namespace = ''acme'', Name = ''vpc'', Provider = ''aws'', Version = ''9.9.9'',
              DownloadURL =
                ''registry.s3-eu-west-1.amazonaws.com/modules/acme/vpc/aws/other/net/gcp/net-9.9.9.tar.gz''\<rparr>,
            \<lparr>Namespace = ''acme'', Name = ''vpc'', Provider = ''aws'', Version = ''1.1.0'',
              DownloadURL =
                ''registry.s3-eu-west-1.amazonaws.com/modules/acme/vpc/aws/vpc-1.1.0.tar.gz''\<rparr>]"
proof -
  have keys: "list_keys mixed_store ''registry'' ''modules/acme/vpc/aws'' =
     [''modules/acme/vpc/aws/vpc-1.0.0.tar.gz'', ''modules/acme/vpc/aws/README.md'',
      ''modules/acme/vpc/aws/other/net/gcp/net-9.9.9.tar.gz'',
      ''modules/acme/vpc/aws/vpc-1.1.0.tar.gz'']"
    by code_simp
  have pfx: "spec_storagePrefix (bucketPrefix registry) ''acme'' ''vpc'' ''aws'' =
     ''modules/acme/vpc/aws''" and b: "bucket registry = ''registry''"
    and r: "bucketRegion registry = ''eu-west-1''"
    and pend: "pending mixed_store = []"
    by (simp_all add: spec_storagePrefix_def registry_def mixed_store_def)
  have md: "spec_objectMetadata ''modules/acme/vpc/aws/vpc-1.0.0.tar.gz'' ''version'' = Some ''1.0.0''"
    "spec_objectMetadata ''modules/acme/vpc/aws/README.md'' ''version'' = None"
    "spec_objectMetadata ''modules/acme/vpc/aws/other/net/gcp/net-9.9.9.tar.gz'' ''version'' = Some ''9.9.9''"
    "spec_objectMetadata ''modules/acme/vpc/aws/vpc-1.1.0.tar.gz'' ''version'' = Some ''1.1.0''"
    by code_simp+
  show ?thesis
    using ListModuleVersions_skips_unparsed [of spec_layout registry mixed_store "''acme''" "''vpc''" "''aws''"]
    by (simp add: keys pfx b r pend md downloadURL_def)
qed

subsection \<open>The identity fields of listed modules\<close>

lemma listed_modules_set:
  "(\<lambda>key. \<lparr>Namespace = namespace, Name = name, Provider = provider,
            Version = the (md key), DownloadURL = url key\<rparr>) ` {key \<in> K. md key \<noteq> None} =
   {\<lparr>Namespace = namespace, Name = name, Provider = provider, Version = version,
     DownloadURL = url key\<rparr> | key version. key \<in> K \<and> md key = Some version}"
  (is "?mk ` ?A = ?B")
proof (intro set_eqI iffI)
  fix m
  assume "m \<in> ?mk ` ?A"
  then obtain key where key: "key \<in> K" "md key \<noteq> None" "m = ?mk key"
    by blast
  then obtain version where v: "md key = Some version"
    by blast
  with key have "m = \<lparr>Namespace = namespace, Name = name, Provider = provider,
      Version = version, DownloadURL = url key\<rparr>"
    by simp
  with key(1) v show "m \<in> ?B"
    by blast
next
  fix m
  assume "m \<in> ?B"
  then obtain key version where k: "key \<in> K" "md key = Some version"
    and m: "m = \<lparr>Namespace = namespace, Name = name, Provider = provider,
        Version = version, DownloadURL = url key\<rparr>"
    by blast
  from k m have "m = ?mk key" by simp
  moreover from k have "key \<in> ?A" by simp
  ultimately show "m \<in> ?mk ` ?A"
    by (rule image_eqI)
qed

text \<open>
  C10. The modules \<^verbatim>\<open>ListModuleVersions\<close> returns are exactly the records built, for
  each listed key that has a \<^verbatim>\<open>version\<close> field, from the three arguments of the call,
  the version read from the key, and the URL of the key. So the namespace, the name and
  the provider of every listed module are the caller's, whatever the key spells out,
  and only the version comes from the key.
\<close>

theorem ListModuleVersions_identity_fields:
  assumes "fst (ListModuleVersions L s w namespace name provider) = Inr ms"
  shows "set ms =
           {\<lparr>Namespace = namespace, Name = name, Provider = provider, Version = version,
             DownloadURL = downloadURL s key\<rparr> | key version.
              key \<in> set (list_keys w (bucket s)
                            (storagePrefix L (bucketPrefix s) namespace name provider))
              \<and> objectMetadata L key ''version'' = Some version}
       \<and> (\<forall>m \<in> set ms. Namespace m = namespace \<and> Name m = name \<and> Provider m = provider)"
proof -
  let ?keys = "list_keys w (bucket s) (storagePrefix L (bucketPrefix s) namespace name provider)"
  let ?mk = "\<lambda>key. \<lparr>Namespace = namespace, Name = name, Provider = provider,
                     Version = the (objectMetadata L key ''version''),
                     DownloadURL = downloadURL s key\<rparr>"
  have ms: "ms = map ?mk (filter (\<lambda>key. objectMetadata L key ''version'' \<noteq> None) ?keys)"
    using assms by (simp add: ListModuleVersions_fst split: option.splits)
  have "set ms = ?mk ` {key \<in> set ?keys. objectMetadata L key ''version'' \<noteq> None}"
    unfolding ms by simp
  also have "\<dots> =
      {\<lparr>Namespace = namespace, Name = name, Provider = provider, Version = version,
        DownloadURL = downloadURL s key\<rparr> | key version.
         key \<in> set ?keys \<and> objectMetadata L key ''version'' = Some version}"
    by (rule listed_modules_set)
  finally have eq: "set ms =
      {\<lparr>Namespace = namespace, Name = name, Provider = provider, Version = version,
        DownloadURL = downloadURL s key\<rparr> | key version.
         key \<in> set ?keys \<and> objectMetadata L key ''version'' = Some version}" .
  then have "\<forall>m \<in> set ms. Namespace m = namespace \<and> Name m = name \<and> Provider m = provider"
    by auto
  with eq show ?thesis by (intro conjI)
qed

text \<open>
  In \<open>mixed_store\<close> the key \<^verbatim>\<open>modules/acme/vpc/aws/other/net/gcp/net-9.9.9.tar.gz\<close>
  spells out the module \<^verbatim>\<open>other/net/gcp\<close>; the listing of \<^verbatim>\<open>acme/vpc/aws\<close> reports
  its version as one of \<^verbatim>\<open>acme/vpc/aws\<close>.
\<close>

theorem ListModuleVersions_identity_fields_witness:
  "spec_objectMetadata ''modules/acme/vpc/aws/other/net/gcp/net-9.9.9.tar.gz'' ''namespace'' =
     Some ''other''
   \<and> spec_objectMetadata ''modules/acme/vpc/aws/other/net/gcp/net-9.9.9.tar.gz'' ''provider'' =
     Some ''gcp''
   \<and> (\<exists>ms. fst (ListModuleVersions spec_layout registry mixed_store ''acme'' ''vpc'' ''aws'') =
            Inr ms
          \<and> \<lparr>Namespace = ''acme'', Name = ''vpc'', Provider = ''aws'', Version = ''9.9.9'',
              DownloadURL =
                ''registry.s3-eu-west-1.amazonaws.com/modules/acme/vpc/aws/other/net/gcp/net-9.9.9.tar.gz''\<rparr>
            \<in> set ms
          \<and> list_all (\<lambda>m. Namespace m = ''acme'' \<and> Name m = ''vpc'' \<and> Provider m = ''aws'') ms)"
proof -
  have md: "spec_objectMetadata ''modules/acme/vpc/aws/other/net/gcp/net-9.9.9.tar.gz'' ''namespace'' =
     Some ''other''"
    "spec_objectMetadata ''modules/acme/vpc/aws/other/net/gcp/net-9.9.9.tar.gz'' ''provider'' =
     Some ''gcp''"
    by code_simp+
  show ?thesis
    using ListModuleVersions_identity_fields [OF mixed_store_listing, THEN conjunct2] md
    by (simp add: list_all_iff mixed_store_listing)
qed

subsection \<open>The download URL\<close>



subsection \<open>Listing after uploads\<close>

lemma UploadModule_store:
  "(length (object_writes (snd (UploadModule L s w namespace name provider version body))) =
      length (object_writes w)
    \<and> objects (snd (UploadModule L s w namespace name provider version body)) = objects w)
   \<or> (length (object_writes w) <
         length (object_writes (snd (UploadModule L s w namespace name provider version body)))
      \<and> objects (snd (UploadModule L s w namespace name provider version body)) =
          AList.update
            (bucket s,
             storagePath L (bucketPrefix s) namespace name provider version
               (DefaultArchiveFormat L)) body (objects w))"
  using UploadModule_effect [where L = L and s = s and w = w and namespace = namespace
      and name = name and provider = provider and version = version and body = body]
  by (cases "UploadModule L s w namespace name provider version body")
     (auto split: sum.splits if_splits)

text \<open>
  After a sequence of uploads the store holds what it held before and the keys, in the
  default format, of the identities that were written.
\<close>

lemma upload_all_keys:
  "upload_all L s w0 calls = (w, U) \<Longrightarrow>
   fst ` set (objects w) =
     fst ` set (objects w0) \<union>
     (\<lambda>(ns, n, p, v).
        (bucket s, storagePath L (bucketPrefix s) ns n p v (DefaultArchiveFormat L))) ` set U"
proof (induction calls arbitrary: w0 w U)
  case Nil
  then show ?case by simp
next
  case (Cons call calls)
  obtain ns n p v body where call: "call = (ns, n, p, v, body)"
    by (cases call) auto
  let ?w1 = "snd (UploadModule L s w0 ns n p v body)"
  let ?key = "(bucket s, storagePath L (bucketPrefix s) ns n p v (DefaultArchiveFormat L))"
  obtain w2 U2 where rest: "upload_all L s ?w1 calls = (w2, U2)"
    by (cases "upload_all L s ?w1 calls")
  from Cons.prems call rest have w: "w = w2"
    and U: "U = (if length (object_writes w0) < length (object_writes ?w1)
                 then (ns, n, p, v) # U2 else U2)"
    by (simp_all add: Let_def)
  from Cons.IH [OF rest] have ih: "fst ` set (objects w2) =
     fst ` set (objects ?w1) \<union>
     (\<lambda>(ns, n, p, v).
        (bucket s, storagePath L (bucketPrefix s) ns n p v (DefaultArchiveFormat L))) ` set U2" .
  from UploadModule_store [of L s w0 ns n p v body] show ?case
  proof (elim disjE conjE)
    assume "length (object_writes ?w1) = length (object_writes w0)"
      and "objects ?w1 = objects w0"
    then show ?thesis
      using ih w U by simp
  next
    assume "length (object_writes w0) < length (object_writes ?w1)"
      and "objects ?w1 = AList.update ?key body (objects w0)"
    then show ?thesis
      using ih w U by (simp add: dom_update)
  qed
qed

lemma set_list_keys:
  "set (list_keys w b pfx) = {k. (b, k) \<in> fst ` set (objects w) \<and> prefix pfx k}"
  by (force simp: list_keys_def image_iff)

lemma listed_versions:
  "set (map Version
          (map (\<lambda>key. \<lparr>Namespace = namespace, Name = name, Provider = provider,
                        Version = the (md key), DownloadURL = url key\<rparr>)
             (filter (\<lambda>key. md key \<noteq> None) keys))) =
     {version. \<exists>key \<in> set keys. md key = Some version}"
  by (force simp: image_iff)

text \<open>
  The versions listed after a sequence of uploads into an empty bucket, when the
  parser reads back the version of every key written: the versions of the written
  identities whose key starts with the prefix of the listing.
\<close>

lemma ListModuleVersions_after_uploads:
  assumes empty: "list_keys w0 (bucket s) [] = []"
    and run: "upload_all L s w0 calls = (w, U)"
    and parse: "\<forall>(ns, n, p, v) \<in> set U.
        objectMetadata L (storagePath L (bucketPrefix s) ns n p v (DefaultArchiveFormat L))
          ''version'' = Some v"
    and served: "fst (ListModuleVersions L s w namespace name provider) = Inr ms"
  shows "set (map Version ms) =
           {v. \<exists>ns n p. (ns, n, p, v) \<in> set U
                 \<and> prefix (storagePrefix L (bucketPrefix s) namespace name provider)
                     (storagePath L (bucketPrefix s) ns n p v (DefaultArchiveFormat L))}"
proof -
  let ?pfx = "storagePrefix L (bucketPrefix s) namespace name provider"
  let ?path = "\<lambda>(ns, n, p, v). storagePath L (bucketPrefix s) ns n p v (DefaultArchiveFormat L)"
  let ?keys = "list_keys w (bucket s) ?pfx"
  have none: "\<And>k. (bucket s, k) \<notin> fst ` set (objects w0)"
  proof
    fix k
    assume "(bucket s, k) \<in> fst ` set (objects w0)"
    then have "k \<in> set (list_keys w0 (bucket s) [])"
      by (simp add: set_list_keys)
    with empty show False by simp
  qed
  have "fst ` set (objects w) =
      fst ` set (objects w0) \<union> (\<lambda>i. (bucket s, ?path i)) ` set U"
    using upload_all_keys [OF run] by (simp add: case_prod_unfold)
  with none have "\<And>k. (bucket s, k) \<in> fst ` set (objects w) \<longleftrightarrow> k \<in> ?path ` set U"
    by (simp add: image_iff)
  then have keys: "set ?keys = {k. k \<in> ?path ` set U \<and> prefix ?pfx k}"
    by (simp add: set_list_keys)
  have ms: "ms = map (\<lambda>key. \<lparr>Namespace = namespace, Name = name, Provider = provider,
                           Version = the (objectMetadata L key ''version''),
                           DownloadURL = downloadURL s key\<rparr>)
                 (filter (\<lambda>key. objectMetadata L key ''version'' \<noteq> None) ?keys)"
    using served by (simp add: ListModuleVersions_fst split: option.splits)
  have "set (map Version ms) =
      {version. \<exists>key \<in> set ?keys. objectMetadata L key ''version'' = Some version}"
    unfolding ms by (rule listed_versions)
  also have "\<dots> = {v. \<exists>ns n p. (ns, n, p, v) \<in> set U \<and> prefix ?pfx (?path (ns, n, p, v))}"
  proof (intro set_eqI iffI)
    fix v
    assume "v \<in> {version. \<exists>key \<in> set ?keys. objectMetadata L key ''version'' = Some version}"
    then obtain key where "key \<in> set ?keys" and md: "objectMetadata L key ''version'' = Some v"
      by blast
    with keys obtain i where i: "i \<in> set U" "key = ?path i" "prefix ?pfx key"
      by blast
    obtain ns n p v' where i': "i = (ns, n, p, v')"
      by (cases i) auto
    with parse i md have "v' = v"
      by auto
    with i i' show "v \<in> {v. \<exists>ns n p. (ns, n, p, v) \<in> set U \<and> prefix ?pfx (?path (ns, n, p, v))}"
      by auto
  next
    fix v
    assume "v \<in> {v. \<exists>ns n p. (ns, n, p, v) \<in> set U \<and> prefix ?pfx (?path (ns, n, p, v))}"
    then obtain ns n p where i: "(ns, n, p, v) \<in> set U" "prefix ?pfx (?path (ns, n, p, v))"
      by blast
    with keys have "?path (ns, n, p, v) \<in> set ?keys"
      by blast
    moreover from parse i have "objectMetadata L (?path (ns, n, p, v)) ''version'' = Some v"
      by auto
    ultimately show
      "v \<in> {version. \<exists>key \<in> set ?keys. objectMetadata L key ''version'' = Some version}"
      by blast
  qed
  finally show ?thesis by simp
qed

text \<open>
  C8, as the code has it. Take a bucket that is empty, any sequence of
  \<^verbatim>\<open>UploadModule\<close> calls on it, and let \<open>U\<close> be the identities whose archive was
  written, the parser reading back the version of every key written. Then
  \<^verbatim>\<open>ListModuleVersions\<close> fails, with \<^verbatim>\<open>ErrListFailed\<close> wrapped with the cause, exactly
  when a page request of the listing fails. Otherwise it returns a list whose versions
  are exactly the versions of the identities of \<open>U\<close> whose key starts with the prefix
  of \<^verbatim>\<open>(namespace, name, provider)\<close>, whichever module they were uploaded under; and it
  returns the empty list, without an error, when no key matches.
\<close>

theorem ListModuleVersions_uploaded_under_prefix:
  assumes empty: "list_keys w0 (bucket s) [] = []"
    and run: "upload_all L s w0 calls = (w, U)"
    and parse: "\<forall>(ns, n, p, v) \<in> set U.
        objectMetadata L (storagePath L (bucketPrefix s) ns n p v (DefaultArchiveFormat L))
          ''version'' = Some v"
  shows "case listing_fault
               (length (paginate (max_keys w)
                  (list_keys w (bucket s)
                     (storagePrefix L (bucketPrefix s) namespace name provider))))
               (pending w) of
           Some e \<Rightarrow>
             fst (ListModuleVersions L s w namespace name provider) =
               Inl (Wrap ErrListFailed (aws_Error e))
         | None \<Rightarrow>
             (\<exists>ms. fst (ListModuleVersions L s w namespace name provider) = Inr ms
                 \<and> set (map Version ms) =
                     {v. \<exists>ns n p. (ns, n, p, v) \<in> set U
                           \<and> prefix (storagePrefix L (bucketPrefix s) namespace name provider)
                               (storagePath L (bucketPrefix s) ns n p v
                                  (DefaultArchiveFormat L))}
                 \<and> (list_keys w (bucket s)
                       (storagePrefix L (bucketPrefix s) namespace name provider) = []
                     \<longrightarrow> ms = []))"
proof (cases "listing_fault
               (length (paginate (max_keys w)
                  (list_keys w (bucket s)
                     (storagePrefix L (bucketPrefix s) namespace name provider))))
               (pending w)")
  case (Some e)
  then show ?thesis
    by (simp add: ListModuleVersions_fst)
next
  case None
  let ?pfx = "storagePrefix L (bucketPrefix s) namespace name provider"
  let ?keys = "list_keys w (bucket s) ?pfx"
  define ms where "ms = map (\<lambda>key. \<lparr>Namespace = namespace, Name = name, Provider = provider,
                           Version = the (objectMetadata L key ''version''),
                           DownloadURL = downloadURL s key\<rparr>)
                 (filter (\<lambda>key. objectMetadata L key ''version'' \<noteq> None) ?keys)"
  have res: "fst (ListModuleVersions L s w namespace name provider) = Inr ms"
    using None by (simp add: ListModuleVersions_fst ms_def)
  have versions: "set (map Version ms) =
      {v. \<exists>ns n p. (ns, n, p, v) \<in> set U
            \<and> prefix ?pfx (storagePath L (bucketPrefix s) ns n p v (DefaultArchiveFormat L))}"
    using empty run parse res by (rule ListModuleVersions_after_uploads)
  have "?keys = [] \<longrightarrow> ms = []"
    by (simp add: ms_def)
  with res versions None show ?thesis
    by simp
qed

text \<open>
  The five uploads of \<open>acme_uploads\<close> into \<open>paged_store\<close>: four are written, the
  listing of \<^verbatim>\<open>acme/vpc/aws\<close> takes two pages and returns its three versions.
\<close>

theorem ListModuleVersions_uploaded_under_prefix_witness:
  "list_keys paged_store ''registry'' [] = []
   \<and> snd (upload_all spec_layout registry paged_store acme_uploads) =
       [(''acme'', ''vpc'', ''aws'', ''1.0.0''), (''acme'', ''vpc'', ''aws'', ''1.1.0''),
        (''acme'', ''vpc'', ''gcp'', ''3.0.0''), (''acme'', ''vpc'', ''aws'', ''2.0.0'')]
   \<and> length (paginate 2
         (list_keys (fst (upload_all spec_layout registry paged_store acme_uploads))
            ''registry'' ''modules/acme/vpc/aws'')) = 2
   \<and> (\<exists>ms. fst (ListModuleVersions spec_layout registry
                   (fst (upload_all spec_layout registry paged_store acme_uploads))
                   ''acme'' ''vpc'' ''aws'') = Inr ms
          \<and> set (map Version ms) = {''1.0.0'', ''1.1.0'', ''2.0.0''})"
proof -
  let ?w = "fst (upload_all spec_layout registry paged_store acme_uploads)"
  let ?U = "[(''acme'', ''vpc'', ''aws'', ''1.0.0''), (''acme'', ''vpc'', ''aws'', ''1.1.0''),
        (''acme'', ''vpc'', ''gcp'', ''3.0.0''), (''acme'', ''vpc'', ''aws'', ''2.0.0'')]"
  let ?starts = "\<lambda>ns n p v.
      prefix (storagePrefix spec_layout (bucketPrefix registry) ''acme'' ''vpc'' ''aws'')
        (storagePath spec_layout (bucketPrefix registry) ns n p v
           (DefaultArchiveFormat spec_layout))"
  have empty: "list_keys paged_store (bucket registry) [] = []"
    by code_simp
  have U: "snd (upload_all spec_layout registry paged_store acme_uploads) = ?U"
    by code_simp
  then have run: "upload_all spec_layout registry paged_store acme_uploads = (?w, ?U)"
    by (simp add: prod_eq_iff)
  have vals: "bucket registry = ''registry''" "bucketPrefix registry = ''modules''"
    by (simp_all add: registry_def)
  have parse: "\<forall>(ns, n, p, v) \<in> set ?U.
        objectMetadata spec_layout
          (storagePath spec_layout (bucketPrefix registry) ns n p v
             (DefaultArchiveFormat spec_layout)) ''version'' = Some v"
    by code_simp
  have starts: "?starts ''acme'' ''vpc'' ''aws'' ''1.0.0''"
    "?starts ''acme'' ''vpc'' ''aws'' ''1.1.0''"
    "\<not> ?starts ''acme'' ''vpc'' ''gcp'' ''3.0.0''"
    "?starts ''acme'' ''vpc'' ''aws'' ''2.0.0''"
    by code_simp+
  have pages: "length (paginate (max_keys ?w)
         (list_keys ?w (bucket registry)
            (storagePrefix spec_layout (bucketPrefix registry) ''acme'' ''vpc'' ''aws''))) = 2"
    by code_simp
  have pages': "length (paginate 2 (list_keys ?w ''registry'' ''modules/acme/vpc/aws'')) = 2"
    by code_simp
  have pend: "pending ?w = []"
    by code_simp
  have versions: "{v. \<exists>ns n p. (ns, n, p, v) \<in> set ?U \<and> ?starts ns n p v} =
      {''1.0.0'', ''1.1.0'', ''2.0.0''}"
    using starts by auto
  from ListModuleVersions_uploaded_under_prefix
         [OF empty run parse, where namespace = "''acme''" and name = "''vpc''"
            and provider = "''aws''"]
  have "\<exists>ms. fst (ListModuleVersions spec_layout registry ?w ''acme'' ''vpc'' ''aws'') = Inr ms
          \<and> set (map Version ms) = {''1.0.0'', ''1.1.0'', ''2.0.0''}"
    unfolding pages pend versions by auto
  with empty U pages' show ?thesis
    unfolding vals by blast
qed

text \<open>
  C8 as stated does not hold. After the two uploads of \<open>gov_uploads\<close> into the empty
  store, every request served, one version has been uploaded under
  \<^verbatim>\<open>acme/vpc/aws\<close>; the key of the version uploaded under \<^verbatim>\<open>acme/vpc/aws-gov\<close>
  starts with the prefix of \<^verbatim>\<open>acme/vpc/aws\<close> as well, and the listing of
  \<^verbatim>\<open>acme/vpc/aws\<close> returns both.
\<close>

theorem ListModuleVersions_lists_other_module:
  "snd (upload_all spec_layout registry empty_store gov_uploads) =
     [(''acme'', ''vpc'', ''aws'', ''1.0.0''), (''acme'', ''vpc'', ''aws-gov'', ''2.0.0'')]
   \<and> objects (fst (upload_all spec_layout registry empty_store gov_uploads)) =
       [((''registry'', ''modules/acme/vpc/aws/vpc-1.0.0.tar.gz''), ''a''),
        ((''registry'', ''modules/acme/vpc/aws-gov/vpc-2.0.0.tar.gz''), ''b'')]
   \<and> fst (ListModuleVersions spec_layout registry
            (fst (upload_all spec_layout registry empty_store gov_uploads))
            ''acme'' ''vpc'' ''aws'') =
       Inr [\<lparr>Namespace = ''acme'', Name = ''vpc'', Provider = ''aws'', Version = ''1.0.0'',
              DownloadURL =
                ''registry.s3-eu-west-1.amazonaws.com/modules/acme/vpc/aws/vpc-1.0.0.tar.gz''\<rparr>,
            \<lparr>Namespace = ''acme'', Name = ''vpc'', Provider = ''aws'', Version = ''2.0.0'',
              DownloadURL =
                ''registry.s3-eu-west-1.amazonaws.com/modules/acme/vpc/aws-gov/vpc-2.0.0.tar.gz''\<rparr>]"
  by code_simp

end
